theory Spec2Isabelle
  imports Complex_Main
begin

section \<open>Data model of the environment parameter manager\<close>

text \<open>
  The development embeds \<^verbatim>\<open>mlagents/trainers/environment_parameter_manager.py\<close>.

  Python floats are IEEE 754 binary64 values. A \<open>pyfloat\<close> is a finite value, held as the
  real number it denotes, one of the two infinities, or not-a-number. The sign of a zero is
  not kept: the module never divides by a float it computed, and no other operation it uses
  tells the two zeros apart. The result of an arithmetic operation on finite values is the
  exact result rounded to the nearest double, ties to the even significand; beyond the
  largest double it is an infinity.
\<close>

datatype pyfloat = Flt real | PosInf | NegInf | NaN

datatype py_error = KeyError | IndexError | TypeError | ZeroDivisionError | OverflowError

text \<open>The nearest integer, a tie going to the even one.\<close>

definition round_half_even :: "real \<Rightarrow> int" where
  "round_half_even y =
     (let f = \<lfloor>y\<rfloor>; d = y - real_of_int f in
      if d < 1 / 2 then f else if 1 / 2 < d then f + 1 else if even f then f else f + 1)"

text \<open>
  The binary exponent of a nonzero real, not below the exponent \<open>-1022\<close> of the smallest
  normal double: subnormal doubles share that exponent.
\<close>

definition exponent64 :: "real \<Rightarrow> int" where
  "exponent64 x = max \<lfloor>log 2 \<bar>x\<bar>\<rfloor> (- 1022)"

text \<open>
  Doubles of exponent \<open>e\<close> are the integer multiples of \<open>2 ^ (e - 52)\<close>, a significand of
  53 bits; \<open>quantize e x\<close> is the multiple nearest to \<open>x\<close>.
\<close>

definition quantize :: "int \<Rightarrow> real \<Rightarrow> real" where
  "quantize e x =
     (if 52 \<le> e
      then real_of_int (round_half_even (x / 2 ^ nat (e - 52))) * 2 ^ nat (e - 52)
      else real_of_int (round_half_even (x * 2 ^ nat (52 - e))) / 2 ^ nat (52 - e))"

text \<open>Rounding of an exact result to a double.\<close>

definition round64 :: "real \<Rightarrow> pyfloat" where
  "round64 x =
     (if x = 0 then Flt 0
      else let r = quantize (exponent64 x) x in
        if 2 ^ 1024 \<le> \<bar>r\<bar> then (if 0 < x then PosInf else NegInf) else Flt r)"


fun isnan :: "pyfloat \<Rightarrow> bool" where
  "isnan NaN = True"
| "isnan _ = False"

text \<open>\<^verbatim>\<open>a + b\<close> on floats.\<close>

fun fadd :: "pyfloat \<Rightarrow> pyfloat \<Rightarrow> pyfloat" where
  "fadd (Flt a) (Flt b) = round64 (a + b)"
| "fadd NaN _ = NaN"
| "fadd _ NaN = NaN"
| "fadd PosInf NegInf = NaN"
| "fadd NegInf PosInf = NaN"
| "fadd PosInf _ = PosInf"
| "fadd _ PosInf = PosInf"
| "fadd NegInf _ = NegInf"
| "fadd _ NegInf = NegInf"

text \<open>\<^verbatim>\<open>a * b\<close> on floats, as in \<^verbatim>\<open>0.25 * smoothing\<close>.\<close>

fun fmul :: "pyfloat \<Rightarrow> pyfloat \<Rightarrow> pyfloat" where
  "fmul (Flt a) (Flt b) = round64 (a * b)"
| "fmul NaN _ = NaN"
| "fmul _ NaN = NaN"
| "fmul (Flt a) PosInf = (if a = 0 then NaN else if 0 < a then PosInf else NegInf)"
| "fmul (Flt a) NegInf = (if a = 0 then NaN else if 0 < a then NegInf else PosInf)"
| "fmul PosInf (Flt b) = (if b = 0 then NaN else if 0 < b then PosInf else NegInf)"
| "fmul NegInf (Flt b) = (if b = 0 then NaN else if 0 < b then NegInf else PosInf)"
| "fmul PosInf PosInf = PosInf"
| "fmul PosInf NegInf = NegInf"
| "fmul NegInf PosInf = NegInf"
| "fmul NegInf NegInf = PosInf"

text \<open>\<^verbatim>\<open>a > b\<close> on floats.\<close>

fun fgt :: "pyfloat \<Rightarrow> pyfloat \<Rightarrow> bool" where
  "fgt (Flt a) (Flt b) = (b < a)"
| "fgt NaN _ = False"
| "fgt _ NaN = False"
| "fgt PosInf PosInf = False"
| "fgt PosInf _ = True"
| "fgt NegInf _ = False"
| "fgt _ NegInf = True"
| "fgt _ PosInf = False"

text \<open>
  \<^verbatim>\<open>float(n)\<close> on a Python integer rounds it to a double and raises \<^verbatim>\<open>OverflowError\<close>
  when the integer rounds beyond the largest double. The result is finite.
\<close>

definition py_float :: "int \<Rightarrow> py_error + real" where
  "py_float n =
     (case round64 (real_of_int n) of Flt r \<Rightarrow> Inr r | _ \<Rightarrow> Inl OverflowError)"

text \<open>\<^verbatim>\<open>a / b\<close> on two finite Python floats raises on a zero divisor.\<close>

definition py_truediv :: "real \<Rightarrow> real \<Rightarrow> py_error + pyfloat" where
  "py_truediv a b = (if b = 0 then Inl ZeroDivisionError else Inr (round64 (a / b)))"

text \<open>Python list indexing: negative indices count from the end.\<close>

definition py_index :: "'a list \<Rightarrow> int \<Rightarrow> py_error + 'a" where
  "py_index xs i =
     (if 0 \<le> i \<and> i < int (length xs) then Inr (xs ! nat i)
      else if i < 0 \<and> - int (length xs) \<le> i then Inr (xs ! nat (int (length xs) + i))
      else Inl IndexError)"

text \<open>Dictionary subscription \<^verbatim>\<open>d[k]\<close>.\<close>

definition py_getitem :: "('k \<rightharpoonup> 'v) \<Rightarrow> 'k \<Rightarrow> py_error + 'v" where
  "py_getitem d k = (case d k of None \<Rightarrow> Inl KeyError | Some v \<Rightarrow> Inr v)"

datatype MeasureType = PROGRESS | REWARD

record CompletionCriteriaSettings =
  behavior :: string
  measure_t :: MeasureType
  min_lesson_length :: int
  signal_smoothing :: bool
  threshold :: pyfloat
  require_reset :: bool

record ParameterRandomizationSettings =
  seed :: int

record Lesson =
  name :: string
  sampler :: ParameterRandomizationSettings
  completion_criteria :: "CompletionCriteriaSettings option"

record EnvironmentParameterSettings =
  lessons :: "Lesson list"

text \<open>
  The settings dictionary keeps insertion order; it is an association list of parameter
  name and settings, and a dictionary has each key once.
\<close>

type_synonym settings_dict = "(string \<times> EnvironmentParameterSettings) list"

section \<open>The completion criteria evaluator\<close>

text \<open>
  \<^verbatim>\<open>EnvironmentParameterManager._need_increment\<close>, branch by branch. The mean of the reward
  buffer is computed by numpy's \<^verbatim>\<open>np.mean\<close>, which is no part of the module: the evaluator
  takes it as the parameter \<open>np_mean\<close>.
\<close>

definition need_increment ::
  "(pyfloat list \<Rightarrow> pyfloat) \<Rightarrow> CompletionCriteriaSettings \<Rightarrow> pyfloat \<Rightarrow> pyfloat list \<Rightarrow> pyfloat
     \<Rightarrow> bool \<times> pyfloat" where
  "need_increment np_mean increment_condition progress reward_buffer smoothing =
     (if int (length reward_buffer) < min_lesson_length increment_condition
      then (False, smoothing)
      else if measure_t increment_condition = PROGRESS
              \<and> fgt progress (threshold increment_condition)
      then (True, smoothing)
      else if measure_t increment_condition = REWARD
      then (if length reward_buffer < 1 then (False, smoothing)
            else let m = np_mean reward_buffer in
              if isnan m then (False, smoothing)
              else let m' = (if signal_smoothing increment_condition
                             then fadd (fmul (Flt 0.25) smoothing) (fmul (Flt 0.75) m) else m);
                       smoothing' = (if signal_smoothing increment_condition
                                     then m' else smoothing)
                   in if fgt m' (threshold increment_condition)
                      then (True, smoothing') else (False, smoothing'))
      else (False, smoothing))"

section \<open>The persisted training status\<close>

text \<open>
  Modelled from the spec: \<^verbatim>\<open>GlobalTrainingStatus\<close> (module \<^verbatim>\<open>training_status\<close>) is
  the external persisted store; per parameter name it holds the \<^verbatim>\<open>LESSON_NUM\<close> entry,
  \<open>get\<close> returns the integer or nothing, \<open>set\<close> overwrites the entry of one key.
  \<open>set_calls\<close> records the writes in the order they are made.
\<close>

record TrainingStatus =
  saved_state :: "string \<rightharpoonup> int"
  set_calls :: "(string \<times> int) list"

definition get_parameter_state :: "TrainingStatus \<Rightarrow> string \<Rightarrow> int option" where
  "get_parameter_state gs category = saved_state gs category"

definition set_parameter_state :: "string \<Rightarrow> int \<Rightarrow> TrainingStatus \<Rightarrow> TrainingStatus" where
  "set_parameter_state category v gs =
     gs\<lparr>saved_state := (saved_state gs)(category \<mapsto> v),
        set_calls := set_calls gs @ [(category, v)]\<rparr>"

section \<open>The manager\<close>

record EnvironmentParameterManager =
  dict_settings :: settings_dict
  smoothing_values :: "string \<rightharpoonup> pyfloat"

subsection \<open>Seed assignment\<close>

text \<open>
  \<^verbatim>\<open>_set_sampler_seeds\<close>: the inner loop over the lessons of one parameter and the outer
  loop over the parameters share the running \<open>offset\<close>, which each returns updated.
\<close>

fun seed_lessons :: "int \<Rightarrow> int \<Rightarrow> Lesson list \<Rightarrow> Lesson list \<times> int" where
  "seed_lessons sd offset [] = ([], offset)"
| "seed_lessons sd offset (lesson # rest) =
     (if seed (sampler lesson) = - 1
      then (case seed_lessons sd (offset + 1) rest of
              (rest', offset') \<Rightarrow>
                (lesson\<lparr>sampler := (sampler lesson)\<lparr>seed := sd + offset\<rparr>\<rparr> # rest', offset'))
      else (case seed_lessons sd offset rest of
              (rest', offset') \<Rightarrow> (lesson # rest', offset')))"

fun seed_settings :: "int \<Rightarrow> int \<Rightarrow> settings_dict \<Rightarrow> settings_dict \<times> int" where
  "seed_settings sd offset [] = ([], offset)"
| "seed_settings sd offset ((param_name, settings) # rest) =
     (case seed_lessons sd offset (lessons settings) of
        (ls', offset') \<Rightarrow>
          (case seed_settings sd offset' rest of
             (rest', offset'') \<Rightarrow> ((param_name, settings\<lparr>lessons := ls'\<rparr>) # rest', offset'')))"

definition set_sampler_seeds :: "int \<Rightarrow> settings_dict \<Rightarrow> settings_dict" where
  "set_sampler_seeds sd d = fst (seed_settings sd 0 d)"

text \<open>The sentinel of a sampler whose seed is not assigned yet.\<close>

definition unassigned :: "Lesson \<Rightarrow> bool" where
  "unassigned lesson = (seed (sampler lesson) = - 1)"

text \<open>All lessons of all parameters, in the order the loops visit them.\<close>

definition all_lessons :: "settings_dict \<Rightarrow> Lesson list" where
  "all_lessons d = concat (map (\<lambda>kv. lessons (snd kv)) d)"

subsection \<open>Construction\<close>

fun init_lesson_nums :: "bool \<Rightarrow> string list \<Rightarrow> TrainingStatus \<Rightarrow> TrainingStatus" where
  "init_lesson_nums restore [] gs = gs"
| "init_lesson_nums restore (parameter_name # rest) gs =
     init_lesson_nums restore rest
       (if get_parameter_state gs parameter_name = None \<or> \<not> restore
        then set_parameter_state parameter_name 0 gs else gs)"

fun init_smoothing :: "string list \<Rightarrow> (string \<rightharpoonup> pyfloat) \<Rightarrow> (string \<rightharpoonup> pyfloat)" where
  "init_smoothing [] sv = sv"
| "init_smoothing (key # rest) sv = init_smoothing rest (sv(key \<mapsto> Flt 0))"

text \<open>\<^verbatim>\<open>__init__\<close>: returns the manager and the training status it leaves behind.\<close>

definition init ::
  "settings_dict \<Rightarrow> int \<Rightarrow> bool \<Rightarrow> TrainingStatus \<Rightarrow> EnvironmentParameterManager \<times> TrainingStatus" where
  "init settings run_seed restore gs =
     (\<lparr>dict_settings = set_sampler_seeds run_seed settings,
       smoothing_values = init_smoothing (map fst settings) Map.empty\<rparr>,
      init_lesson_nums restore (map fst settings) gs)"

subsection \<open>Accessors\<close>

fun lessons_buffer_size :: "string \<Rightarrow> Lesson list \<Rightarrow> int \<Rightarrow> int" where
  "lessons_buffer_size behavior_name [] result = result"
| "lessons_buffer_size behavior_name (lesson # rest) result =
     lessons_buffer_size behavior_name rest
       (case completion_criteria lesson of
          None \<Rightarrow> result
        | Some cc \<Rightarrow>
            if behavior cc = behavior_name then max result (min_lesson_length cc) else result)"

fun settings_buffer_size :: "string \<Rightarrow> settings_dict \<Rightarrow> int \<Rightarrow> int" where
  "settings_buffer_size behavior_name [] result = result"
| "settings_buffer_size behavior_name (kv # rest) result =
     settings_buffer_size behavior_name rest
       (lessons_buffer_size behavior_name (lessons (snd kv)) result)"

definition get_minimum_reward_buffer_size :: "EnvironmentParameterManager \<Rightarrow> string \<Rightarrow> int" where
  "get_minimum_reward_buffer_size m behavior_name =
     settings_buffer_size behavior_name (dict_settings m) 1"

text \<open>
  The \<open>min_lesson_length\<close> values of the lessons whose completion criteria target the
  behavior: in one lesson list, and over all parameters.
\<close>

definition lesson_lengths :: "string \<Rightarrow> Lesson list \<Rightarrow> int list" where
  "lesson_lengths behavior_name ls =
     concat (map (\<lambda>lesson. case completion_criteria lesson of
                    None \<Rightarrow> []
                  | Some cc \<Rightarrow> if behavior cc = behavior_name then [min_lesson_length cc] else [])
               ls)"

definition matching_lengths :: "settings_dict \<Rightarrow> string \<Rightarrow> int list" where
  "matching_lengths d behavior_name = lesson_lengths behavior_name (all_lessons d)"

definition get_current_lesson_number ::
  "EnvironmentParameterManager \<Rightarrow> TrainingStatus \<Rightarrow> (string \<times> int option) list" where
  "get_current_lesson_number m gs =
     map (\<lambda>kv. (fst kv, get_parameter_state gs (fst kv))) (dict_settings m)"

subsection \<open>Lesson advancement\<close>

text \<open>Sequencing of computations that may raise.\<close>

definition bind_err :: "py_error + 'a \<Rightarrow> ('a \<Rightarrow> py_error + 'b) \<Rightarrow> py_error + 'b" where
  "bind_err r f = (case r of Inl e \<Rightarrow> Inl e | Inr v \<Rightarrow> f v)"

text \<open>
  Lines 84 to 87: the lesson the persisted index selects. A missing entry reads as
  \<^verbatim>\<open>None\<close>, which is no list index.
\<close>

definition current_lesson ::
  "TrainingStatus \<Rightarrow> string \<Rightarrow> EnvironmentParameterSettings \<Rightarrow> py_error + (int \<times> Lesson)" where
  "current_lesson gs param_name settings =
     (case get_parameter_state gs param_name of
        None \<Rightarrow> Inl TypeError
      | Some lesson_num \<Rightarrow>
          bind_err (py_index (lessons settings) lesson_num) (\<lambda>lesson. Inr (lesson_num, lesson)))"

text \<open>
  The arguments of the call of \<^verbatim>\<open>_need_increment\<close>, evaluated left to right: the progress
  ratio, the reward buffer and the smoothing value.
\<close>

definition increment_args ::
  "(string \<rightharpoonup> int) \<Rightarrow> (string \<rightharpoonup> int) \<Rightarrow> (string \<rightharpoonup> pyfloat list) \<Rightarrow> (string \<rightharpoonup> pyfloat)
     \<Rightarrow> string \<Rightarrow> string \<Rightarrow> py_error + (pyfloat \<times> pyfloat list \<times> pyfloat)" where
  "increment_args trainer_steps trainer_max_steps trainer_reward_buffer sv param_name
       behavior_to_consider =
     bind_err (py_getitem trainer_steps behavior_to_consider) (\<lambda>steps.
     bind_err (py_float steps) (\<lambda>fsteps.
     bind_err (py_getitem trainer_max_steps behavior_to_consider) (\<lambda>max_steps.
     bind_err (py_float max_steps) (\<lambda>fmax.
     bind_err (py_truediv fsteps fmax) (\<lambda>progress.
     bind_err (py_getitem trainer_reward_buffer behavior_to_consider) (\<lambda>buf.
     bind_err (py_getitem sv param_name) (\<lambda>smoothing.
       Inr (progress, buf, smoothing))))))))"

type_synonym manager_state = "(string \<rightharpoonup> pyfloat) \<times> TrainingStatus"

text \<open>
  One iteration of the loop of \<^verbatim>\<open>update_lessons\<close>. The state (smoothing values and
  training status) is returned also when the iteration raises, with the writes made
  before the exception. The log message of line 106 reads the name of lesson
  \<open>lesson_num + 1\<close>, after the new index is stored.
\<close>

definition update_param ::
  "(pyfloat list \<Rightarrow> pyfloat)
     \<Rightarrow> (string \<rightharpoonup> int) \<Rightarrow> (string \<rightharpoonup> int) \<Rightarrow> (string \<rightharpoonup> pyfloat list)
     \<Rightarrow> string \<times> EnvironmentParameterSettings \<Rightarrow> manager_state \<Rightarrow> bool \<times> bool
     \<Rightarrow> manager_state \<times> (py_error + bool \<times> bool)" where
  "update_param np_mean trainer_steps trainer_max_steps trainer_reward_buffer kv st flags =
     (case current_lesson (snd st) (fst kv) (snd kv) of
        Inl e \<Rightarrow> (st, Inl e)
      | Inr (lesson_num, lesson) \<Rightarrow>
          (case completion_criteria lesson of
             None \<Rightarrow> (st, Inr flags)
           | Some cc \<Rightarrow>
               if \<not> lesson_num < int (length (lessons (snd kv))) then (st, Inr flags)
               else
                 (case increment_args trainer_steps trainer_max_steps trainer_reward_buffer
                         (fst st) (fst kv) (behavior cc) of
                    Inl e \<Rightarrow> (st, Inl e)
                  | Inr (progress, buf, smoothing) \<Rightarrow>
                      (case need_increment np_mean cc progress buf smoothing of
                         (must_increment, new_smoothing) \<Rightarrow>
                           let sv' = (fst st)(fst kv \<mapsto> new_smoothing) in
                           if must_increment
                           then
                             let gs' = set_parameter_state (fst kv) (lesson_num + 1) (snd st) in
                             (case py_index (lessons (snd kv)) (lesson_num + 1) of
                                Inl e \<Rightarrow> ((sv', gs'), Inl e)
                              | Inr next_lesson \<Rightarrow>
                                  ((sv', gs'), Inr (True, snd flags \<or> require_reset cc)))
                           else ((sv', snd st), Inr flags)))))"

fun update_loop ::
  "(pyfloat list \<Rightarrow> pyfloat)
     \<Rightarrow> (string \<rightharpoonup> int) \<Rightarrow> (string \<rightharpoonup> int) \<Rightarrow> (string \<rightharpoonup> pyfloat list)
     \<Rightarrow> settings_dict \<Rightarrow> manager_state \<Rightarrow> bool \<times> bool
     \<Rightarrow> manager_state \<times> (py_error + bool \<times> bool)" where
  "update_loop np_mean ts tms trb [] st flags = (st, Inr flags)"
| "update_loop np_mean ts tms trb (kv # rest) st flags =
     (case update_param np_mean ts tms trb kv st flags of
        (st', Inl e) \<Rightarrow> (st', Inl e)
      | (st', Inr flags') \<Rightarrow> update_loop np_mean ts tms trb rest st' flags')"

text \<open>
  \<^verbatim>\<open>update_lessons\<close>: the flags are \<open>(updated, must_reset)\<close>, both false at the start.
\<close>

definition update_lessons ::
  "(pyfloat list \<Rightarrow> pyfloat) \<Rightarrow> EnvironmentParameterManager \<Rightarrow> TrainingStatus
     \<Rightarrow> (string \<rightharpoonup> int) \<Rightarrow> (string \<rightharpoonup> int) \<Rightarrow> (string \<rightharpoonup> pyfloat list)
     \<Rightarrow> (EnvironmentParameterManager \<times> TrainingStatus) \<times> (py_error + bool \<times> bool)" where
  "update_lessons np_mean m gs trainer_steps trainer_max_steps trainer_reward_buffer =
     (case update_loop np_mean trainer_steps trainer_max_steps trainer_reward_buffer
             (dict_settings m)
             (smoothing_values m, gs) (False, False) of
        ((sv', gs'), r) \<Rightarrow> ((m\<lparr>smoothing_values := sv'\<rparr>, gs'), r))"

section \<open>Example configurations\<close>

text \<open>
  A mean for the examples: the entries are added from left to right and the sum is divided
  by their number, each result rounded. On the buffers of the examples every intermediate
  result is exact, so the order of the additions makes no difference.
\<close>

definition seq_mean :: "pyfloat list \<Rightarrow> pyfloat" where
  "seq_mean xs =
     (if xs = [] then NaN
      else case foldl fadd (Flt 0) xs of
             Flt acc \<Rightarrow> round64 (acc / real (length xs))
           | v \<Rightarrow> v)"

text \<open>
  A REWARD criteria with smoothing; its threshold is the double written \<^verbatim>\<open>0.9\<close>.
\<close>

definition reward_criteria :: CompletionCriteriaSettings where
  "reward_criteria =
     \<lparr>behavior = ''b'', measure_t = REWARD, min_lesson_length = 4, signal_smoothing = True,
      threshold = round64 (9 / 10), require_reset = False\<rparr>"

text \<open>Two parameters, three lessons, two of them without a seed.\<close>

definition seed_example :: settings_dict where
  "seed_example =
     [(''x'', \<lparr>lessons =
         [\<lparr>name = ''l0'', sampler = \<lparr>seed = - 1\<rparr>, completion_criteria = None\<rparr>,
          \<lparr>name = ''l1'', sampler = \<lparr>seed = 5\<rparr>, completion_criteria = None\<rparr>]\<rparr>),
      (''y'', \<lparr>lessons =
         [\<lparr>name = ''l2'', sampler = \<lparr>seed = - 1\<rparr>, completion_criteria = None\<rparr>]\<rparr>)]"

text \<open>A training status left by an earlier run: parameter \<open>x\<close> is at lesson 2.\<close>

definition restore_example :: settings_dict where
  "restore_example =
     [(''x'', \<lparr>lessons =
         [\<lparr>name = ''l0'', sampler = \<lparr>seed = - 1\<rparr>, completion_criteria = None\<rparr>]\<rparr>),
      (''y'', \<lparr>lessons =
         [\<lparr>name = ''l1'', sampler = \<lparr>seed = - 1\<rparr>, completion_criteria = None\<rparr>]\<rparr>)]"

definition restore_status :: TrainingStatus where
  "restore_status = \<lparr>saved_state = [''x'' \<mapsto> 2], set_calls = []\<rparr>"

text \<open>A first lesson whose criteria keep the default \<open>min_lesson_length\<close> of 0.\<close>

definition zero_length_settings :: settings_dict where
  "zero_length_settings =
     [(''p'', \<lparr>lessons =
         [\<lparr>name = ''first'', sampler = \<lparr>seed = 1\<rparr>,
           completion_criteria = Some \<lparr>behavior = ''b'', measure_t = PROGRESS,
             min_lesson_length = 0, signal_smoothing = False, threshold = Flt 0.5,
             require_reset = False\<rparr>\<rparr>,
          \<lparr>name = ''last'', sampler = \<lparr>seed = 2\<rparr>, completion_criteria = None\<rparr>]\<rparr>)]"

text \<open>
  A curriculum of two parameters: \<open>gravity\<close> has one lesson without completion criteria,
  \<open>scale\<close> leaves its first lesson when the progress of behavior \<open>b\<close> is above one half.
\<close>

definition gravity_settings :: EnvironmentParameterSettings where
  "gravity_settings =
     \<lparr>lessons = [\<lparr>name = ''fixed'', sampler = \<lparr>seed = 3\<rparr>, completion_criteria = None\<rparr>]\<rparr>"

definition scale_criteria :: CompletionCriteriaSettings where
  "scale_criteria =
     \<lparr>behavior = ''b'', measure_t = PROGRESS, min_lesson_length = 1, signal_smoothing = False,
      threshold = Flt 0.5, require_reset = True\<rparr>"

definition small_lesson :: Lesson where
  "small_lesson =
     \<lparr>name = ''small'', sampler = \<lparr>seed = 4\<rparr>, completion_criteria = Some scale_criteria\<rparr>"

definition scale_settings :: EnvironmentParameterSettings where
  "scale_settings =
     \<lparr>lessons =
        [small_lesson,
         \<lparr>name = ''large'', sampler = \<lparr>seed = 5\<rparr>, completion_criteria = None\<rparr>]\<rparr>"

definition mixed_manager :: EnvironmentParameterManager where
  "mixed_manager =
     \<lparr>dict_settings = [(''gravity'', gravity_settings), (''scale'', scale_settings)],
      smoothing_values = [''gravity'' \<mapsto> Flt 0, ''scale'' \<mapsto> Flt 0]\<rparr>"

definition mixed_status :: TrainingStatus where
  "mixed_status = \<lparr>saved_state = [''gravity'' \<mapsto> 0, ''scale'' \<mapsto> 0], set_calls = []\<rparr>"


definition some_steps :: "string \<rightharpoonup> int" where
  "some_steps = [''b'' \<mapsto> 1, ''c'' \<mapsto> 1]"

definition some_rewards :: "string \<rightharpoonup> pyfloat list" where
  "some_rewards = [''b'' \<mapsto> [Flt 1], ''c'' \<mapsto> [Flt 1]]"

text \<open>A parameter with a single lesson, which has completion criteria.\<close>

definition single_lesson_settings :: EnvironmentParameterSettings where
  "single_lesson_settings = \<lparr>lessons = [small_lesson]\<rparr>"

definition single_lesson_manager :: EnvironmentParameterManager where
  "single_lesson_manager =
     \<lparr>dict_settings = [(''scale'', single_lesson_settings)],
      smoothing_values = [''scale'' \<mapsto> Flt 0]\<rparr>"

definition single_lesson_status :: TrainingStatus where
  "single_lesson_status = \<lparr>saved_state = [''scale'' \<mapsto> 0], set_calls = []\<rparr>"

section \<open>Rounding to a double\<close>

lemma exponent64_up:
  assumes "2 ^ n \<le> \<bar>x\<bar>" and "\<bar>x\<bar> < 2 ^ Suc n"
  shows "exponent64 x = int n"
proof -
  have pos: "0 < \<bar>x\<bar>"
    using assms(1) by (smt (verit) zero_less_power)
  have "real n \<le> log 2 \<bar>x\<bar>"
    using assms(1) pos by (simp add: le_log_iff powr_realpow)
  moreover have "log 2 \<bar>x\<bar> < real (Suc n)"
  proof -
    have e: "(2::real) powr real (Suc n) = 2 ^ Suc n"
      by (rule powr_realpow) simp
    have "\<bar>x\<bar> < 2 powr real (Suc n)"
      unfolding e by (rule assms(2))
    then show ?thesis
      using pos by (simp add: log_less_iff)
  qed
  ultimately have "\<lfloor>log 2 \<bar>x\<bar>\<rfloor> = int n"
    by (simp add: floor_eq_iff)
  then show ?thesis
    by (simp add: exponent64_def)
qed

lemma exponent64_down:
  assumes "1 \<le> \<bar>x\<bar> * 2 ^ n" and "\<bar>x\<bar> * 2 ^ n < 2" and "n \<le> 1022"
  shows "exponent64 x = - int n"
proof -
  have pos: "0 < \<bar>x\<bar>"
    using assms(1) by (cases "x = 0") auto
  have l: "log 2 (\<bar>x\<bar> * 2 ^ n) = log 2 \<bar>x\<bar> + real n"
    using pos by (simp add: log_mult log_nat_power)
  have "0 \<le> log 2 (\<bar>x\<bar> * 2 ^ n)"
    using assms(1) by (simp add: zero_le_log_cancel_iff)
  moreover have "log 2 (\<bar>x\<bar> * 2 ^ n) < 1"
    using assms(1,2) by (subst log_less_iff) simp_all
  ultimately have "\<lfloor>log 2 \<bar>x\<bar>\<rfloor> = - int n"
    unfolding l by (simp add: floor_eq_iff)
  then show ?thesis
    using assms(3) by (simp add: exponent64_def)
qed

lemma round64_zero: "round64 0 = Flt 0"
  by (simp add: round64_def)

lemma round64_one: "round64 1 = Flt 1"
  by (simp add: round64_def quantize_def round_half_even_def exponent64_up [of 0 1])

lemma round64_two: "round64 2 = Flt 2"
  by (simp add: round64_def quantize_def round_half_even_def exponent64_up [of 1 2])

lemma round64_three: "round64 3 = Flt 3"
  by (simp add: round64_def quantize_def round_half_even_def exponent64_up [of 1 3])

lemma round64_four: "round64 4 = Flt 4"
  by (simp add: round64_def quantize_def round_half_even_def exponent64_up [of 2 4])


lemma round64_three_quarters: "round64 (3 / 4) = Flt (3 / 4)"
  by (simp add: round64_def quantize_def round_half_even_def exponent64_down [of "3 / 4" 1])

lemma round64_three_sixteenths: "round64 (3 / 16) = Flt (3 / 16)"
  by (simp add: round64_def quantize_def round_half_even_def exponent64_down [of "3 / 16" 3])

lemma round64_fifteen_sixteenths: "round64 (15 / 16) = Flt (15 / 16)"
  by (simp add: round64_def quantize_def round_half_even_def exponent64_down [of "15 / 16" 1])

lemma round64_nine_tenths: "round64 (9 / 10) = Flt (8106479329266893 / 9007199254740992)"
  by (simp add: round64_def quantize_def round_half_even_def exponent64_down [of "9 / 10" 1])

lemma seq_mean_ones: "seq_mean [Flt 1, Flt 1, Flt 1, Flt 1] = Flt 1"
  by (simp add: seq_mean_def round64_one round64_two round64_three round64_four)

lemma fadd_nan: "fadd x NaN = NaN"
  by (cases x) simp_all

lemma seq_mean_nan: "seq_mean [Flt 1, NaN] = NaN"
  by (simp add: seq_mean_def fadd_nan)

section \<open>Bounds of rounded results\<close>






















section \<open>Properties of the evaluator\<close>

text \<open>
  C3. Whatever the measure kind, the progress value and the prior smoothing value, a reward
  buffer shorter than \<open>min_lesson_length\<close> makes the evaluator return
  \<open>(False, smoothing)\<close>; the gate precedes the test on the measure kind, so it applies to
  PROGRESS criteria too.
\<close>

theorem need_increment_gate:
  assumes "int (length reward_buffer) < min_lesson_length c"
  shows "need_increment np_mean c progress reward_buffer smoothing = (False, smoothing)"
  using assms by (simp add: need_increment_def)

theorem need_increment_gate_witness:
  "int (length [Flt 1]) <
     min_lesson_length \<lparr>behavior = ''b'', measure_t = PROGRESS, min_lesson_length = 2,
        signal_smoothing = False, threshold = Flt 0.5, require_reset = False\<rparr>
   \<and> need_increment seq_mean \<lparr>behavior = ''b'', measure_t = PROGRESS, min_lesson_length = 2,
        signal_smoothing = False, threshold = Flt 0.5, require_reset = False\<rparr>
        (Flt 1) [Flt 1] (Flt 0.3) = (False, Flt 0.3)"
  using need_increment_gate [of "[Flt 1]"
      "\<lparr>behavior = ''b'', measure_t = PROGRESS, min_lesson_length = 2,
        signal_smoothing = False, threshold = Flt 0.5, require_reset = False\<rparr>"
      seq_mean "Flt 1" "Flt 0.3"]
  by simp

text \<open>
  C8. For a PROGRESS criteria whose buffer passes the length gate, the evaluator signals the
  increment exactly when \<open>progress > threshold\<close>, a strict comparison, and returns the prior
  smoothing value. With threshold 0.5, \<open>min_lesson_length\<close> 1 and buffer \<open>[0.0]\<close>, progress
  0.51 advances and progress 0.50 does not.
\<close>

theorem need_increment_progress:
  assumes "measure_t c = PROGRESS"
    and "\<not> int (length reward_buffer) < min_lesson_length c"
  shows "need_increment np_mean c progress reward_buffer smoothing
           = (fgt progress (threshold c), smoothing)"
  using assms by (simp add: need_increment_def)

theorem need_increment_progress_witness:
  "measure_t \<lparr>behavior = ''b'', measure_t = PROGRESS, min_lesson_length = 1,
        signal_smoothing = False, threshold = Flt 0.5, require_reset = False\<rparr> = PROGRESS
   \<and> \<not> int (length [Flt 0]) < min_lesson_length \<lparr>behavior = ''b'', measure_t = PROGRESS,
        min_lesson_length = 1, signal_smoothing = False, threshold = Flt 0.5,
        require_reset = False\<rparr>
   \<and> need_increment seq_mean \<lparr>behavior = ''b'', measure_t = PROGRESS, min_lesson_length = 1,
        signal_smoothing = False, threshold = Flt 0.5, require_reset = False\<rparr>
        (Flt 0.51) [Flt 0] (Flt 0) = (True, Flt 0)
   \<and> need_increment seq_mean \<lparr>behavior = ''b'', measure_t = PROGRESS, min_lesson_length = 1,
        signal_smoothing = False, threshold = Flt 0.5, require_reset = False\<rparr>
        (Flt 0.50) [Flt 0] (Flt 0) = (False, Flt 0)"
  using need_increment_progress [of "\<lparr>behavior = ''b'', measure_t = PROGRESS,
        min_lesson_length = 1, signal_smoothing = False, threshold = Flt 0.5,
        require_reset = False\<rparr>" "[Flt 0]" seq_mean "Flt 0.51" "Flt 0"]
    need_increment_progress [of "\<lparr>behavior = ''b'', measure_t = PROGRESS,
        min_lesson_length = 1, signal_smoothing = False, threshold = Flt 0.5,
        require_reset = False\<rparr>" "[Flt 0]" seq_mean "Flt 0.50" "Flt 0"]
  by simp

text \<open>
  C9. For a REWARD criteria whose non-empty buffer passes the length gate, a NaN mean makes
  the evaluator return \<open>(False, smoothing)\<close>: no advancement, and the prior smoothing value
  is returned as it was. This holds whatever function computes the mean.
\<close>

theorem need_increment_nan_mean:
  assumes "measure_t c = REWARD"
    and "\<not> int (length reward_buffer) < min_lesson_length c"
    and "reward_buffer \<noteq> []"
    and "isnan (np_mean reward_buffer)"
  shows "need_increment np_mean c progress reward_buffer smoothing = (False, smoothing)"
  using assms by (simp add: need_increment_def)

theorem need_increment_nan_mean_witness:
  "measure_t \<lparr>behavior = ''b'', measure_t = REWARD, min_lesson_length = 2,
        signal_smoothing = True, threshold = Flt 0.5, require_reset = False\<rparr> = REWARD
   \<and> \<not> int (length [Flt 1, NaN]) < min_lesson_length \<lparr>behavior = ''b'', measure_t = REWARD,
        min_lesson_length = 2, signal_smoothing = True, threshold = Flt 0.5,
        require_reset = False\<rparr>
   \<and> [Flt 1, NaN] \<noteq> []
   \<and> isnan (seq_mean [Flt 1, NaN])
   \<and> need_increment seq_mean \<lparr>behavior = ''b'', measure_t = REWARD, min_lesson_length = 2,
        signal_smoothing = True, threshold = Flt 0.5, require_reset = False\<rparr>
        (Flt 1) [Flt 1, NaN] (Flt 0.25) = (False, Flt 0.25)"
  using need_increment_nan_mean [of "\<lparr>behavior = ''b'', measure_t = REWARD,
        min_lesson_length = 2, signal_smoothing = True, threshold = Flt 0.5,
        require_reset = False\<rparr>" "[Flt 1, NaN]" seq_mean "Flt 1" "Flt 0.25"]
  by (simp add: seq_mean_nan)

text \<open>
  C2. For a REWARD criteria with smoothing, a non-empty buffer passing the length gate and
  a mean \<open>m\<close> that is not NaN, the evaluator computes \<open>0.25 * smoothing + 0.75 * m\<close> in
  double arithmetic (two rounded products and their rounded sum), returns it as the new
  smoothing value and signals the increment exactly when it is above the threshold, a
  strict comparison. With threshold 0.9, buffer \<open>[1, 1, 1, 1]\<close> and \<open>min_lesson_length\<close> 4,
  the first call returns \<open>(False, 0.75)\<close> and the second \<open>(True, 0.9375)\<close>.
\<close>

theorem need_increment_reward_smoothing:
  assumes "measure_t c = REWARD"
    and "signal_smoothing c"
    and "\<not> int (length reward_buffer) < min_lesson_length c"
    and "reward_buffer \<noteq> []"
    and "\<not> isnan (np_mean reward_buffer)"
  shows "need_increment np_mean c progress reward_buffer smoothing
           = (fgt (fadd (fmul (Flt 0.25) smoothing) (fmul (Flt 0.75) (np_mean reward_buffer)))
                  (threshold c),
              fadd (fmul (Flt 0.25) smoothing) (fmul (Flt 0.75) (np_mean reward_buffer)))"
  using assms by (simp add: need_increment_def Let_def)

theorem need_increment_reward_smoothing_witness:
  "measure_t reward_criteria = REWARD
   \<and> signal_smoothing reward_criteria
   \<and> \<not> int (length [Flt 1, Flt 1, Flt 1, Flt 1]) < min_lesson_length reward_criteria
   \<and> [Flt 1, Flt 1, Flt 1, Flt 1] \<noteq> []
   \<and> \<not> isnan (seq_mean [Flt 1, Flt 1, Flt 1, Flt 1])
   \<and> need_increment seq_mean reward_criteria (Flt 0) [Flt 1, Flt 1, Flt 1, Flt 1] (Flt 0)
       = (False, Flt 0.75)
   \<and> need_increment seq_mean reward_criteria (Flt 0) [Flt 1, Flt 1, Flt 1, Flt 1] (Flt 0.75)
       = (True, Flt 0.9375)"
  using need_increment_reward_smoothing [of reward_criteria "[Flt 1, Flt 1, Flt 1, Flt 1]"
      seq_mean "Flt 0" "Flt 0"]
    need_increment_reward_smoothing [of reward_criteria "[Flt 1, Flt 1, Flt 1, Flt 1]"
      seq_mean "Flt 0" "Flt 0.75"]
  by (simp add: reward_criteria_def seq_mean_ones round64_zero round64_three_quarters
      round64_three_sixteenths round64_fifteen_sixteenths round64_nine_tenths)

section \<open>Seed assignment\<close>

lemma seed_lessons_length: "length (fst (seed_lessons sd off ls)) = length ls"
  by (induction ls arbitrary: off) (simp_all add: case_prod_beta)

lemma seed_lessons_offset:
  "snd (seed_lessons sd off ls) = off + int (length (filter unassigned ls))"
  by (induction ls arbitrary: off) (simp_all add: unassigned_def case_prod_beta)

lemma seed_lessons_nth:
  "i < length ls \<Longrightarrow>
   fst (seed_lessons sd off ls) ! i =
     (if unassigned (ls ! i)
      then (ls ! i)\<lparr>sampler := (sampler (ls ! i))
              \<lparr>seed := sd + (off + int (length (filter unassigned (take i ls))))\<rparr>\<rparr>
      else ls ! i)"
proof (induction ls arbitrary: off i)
  case Nil
  then show ?case by simp
next
  case (Cons l ls)
  show ?case
  proof (cases i)
    case 0
    then show ?thesis by (auto simp: unassigned_def split: prod.splits)
  next
    case (Suc k)
    with Cons.prems have k: "k < length ls" by simp
    show ?thesis
    proof (cases "unassigned l")
      case True
      then have "fst (seed_lessons sd off (l # ls)) ! i = fst (seed_lessons sd (off + 1) ls) ! k"
        using Suc by (simp add: unassigned_def split: prod.splits)
      then show ?thesis using Cons.IH [OF k, of "off + 1"] Suc True
        by (simp add: algebra_simps)
    next
      case False
      then have "fst (seed_lessons sd off (l # ls)) ! i = fst (seed_lessons sd off ls) ! k"
        using Suc by (simp add: unassigned_def split: prod.splits)
      then show ?thesis using Cons.IH [OF k, of off] Suc False
        by simp
    qed
  qed
qed

lemma seed_lessons_append:
  "seed_lessons sd off (xs @ ys) =
     (fst (seed_lessons sd off xs) @ fst (seed_lessons sd (snd (seed_lessons sd off xs)) ys),
      snd (seed_lessons sd (snd (seed_lessons sd off xs)) ys))"
  by (induction xs arbitrary: off) (auto split: prod.splits)

lemma seed_settings_flat:
  "all_lessons (fst (seed_settings sd off d)) = fst (seed_lessons sd off (all_lessons d))
   \<and> snd (seed_settings sd off d) = snd (seed_lessons sd off (all_lessons d))"
proof (induction d arbitrary: off)
  case Nil
  then show ?case by (simp add: all_lessons_def)
next
  case (Cons kv d)
  obtain p s where kv: "kv = (p, s)" by (cases kv)
  have al: "all_lessons (kv # d) = lessons s @ all_lessons d"
    by (simp add: all_lessons_def kv)
  show ?case
    using Cons.IH [of "snd (seed_lessons sd off (lessons s))"]
    unfolding al seed_lessons_append
    by (auto simp: kv all_lessons_def split: prod.splits)
qed

lemma seed_settings_shape:
  "map fst (fst (seed_settings sd off d)) = map fst d
   \<and> map (\<lambda>kv. length (lessons (snd kv))) (fst (seed_settings sd off d))
       = map (\<lambda>kv. length (lessons (snd kv))) d"
proof (induction d arbitrary: off)
  case Nil
  then show ?case by simp
next
  case (Cons kv d)
  obtain p s where kv: "kv = (p, s)" by (cases kv)
  show ?case
    using Cons.IH [of "snd (seed_lessons sd off (lessons s))"]
      seed_lessons_length [of sd off "lessons s"]
    by (auto simp: kv split: prod.splits)
qed

lemma filter_take_mono:
  assumes "i < j" "j \<le> length xs" "P (xs ! i)"
  shows "length (filter P (take i xs)) < length (filter P (take j xs))"
proof -
  have "take j xs = take (Suc i) xs @ take (j - Suc i) (drop (Suc i) xs)"
    using assms(1) by (metis Suc_leI le_add_diff_inverse take_add)
  moreover have "take (Suc i) xs = take i xs @ [xs ! i]"
    using assms by (simp add: take_Suc_conv_app_nth)
  ultimately show ?thesis using assms(3) by simp
qed

text \<open>
  C5. The loops keep the parameter names and the number of lessons of each parameter, and
  change nothing but seeds. In visiting order, a lesson whose seed is \<open>-1\<close> gets
  \<open>sd + k\<close>, with \<open>k\<close> the number of unassigned lessons visited before it; a lesson with
  another seed keeps its sampler; two lessons that were both unassigned get different
  seeds.
\<close>

theorem set_sampler_seeds_assignment:
  "map fst (set_sampler_seeds sd d) = map fst d
   \<and> map (\<lambda>kv. length (lessons (snd kv))) (set_sampler_seeds sd d)
       = map (\<lambda>kv. length (lessons (snd kv))) d
   \<and> (\<forall>i < length (all_lessons d).
        name (all_lessons (set_sampler_seeds sd d) ! i) = name (all_lessons d ! i)
        \<and> completion_criteria (all_lessons (set_sampler_seeds sd d) ! i)
            = completion_criteria (all_lessons d ! i)
        \<and> (seed (sampler (all_lessons d ! i)) = - 1 \<longrightarrow>
             seed (sampler (all_lessons (set_sampler_seeds sd d) ! i))
               = sd + int (length (filter (\<lambda>l. seed (sampler l) = - 1)
                                     (take i (all_lessons d)))))
        \<and> (seed (sampler (all_lessons d ! i)) \<noteq> - 1 \<longrightarrow>
             sampler (all_lessons (set_sampler_seeds sd d) ! i) = sampler (all_lessons d ! i)))
   \<and> (\<forall>i j. i < j \<and> j < length (all_lessons d)
          \<and> seed (sampler (all_lessons d ! i)) = - 1
          \<and> seed (sampler (all_lessons d ! j)) = - 1 \<longrightarrow>
          seed (sampler (all_lessons (set_sampler_seeds sd d) ! i))
            \<noteq> seed (sampler (all_lessons (set_sampler_seeds sd d) ! j)))"
proof -
  let ?old = "all_lessons d"
  let ?new = "all_lessons (set_sampler_seeds sd d)"
  let ?cnt = "\<lambda>i. int (length (filter unassigned (take i ?old)))"
  have un: "unassigned = (\<lambda>l. seed (sampler l) = - 1)"
    by (rule ext) (simp add: unassigned_def)
  have flat: "?new = fst (seed_lessons sd 0 ?old)"
    by (simp add: set_sampler_seeds_def seed_settings_flat)
  have nth: "?new ! i =
      (if unassigned (?old ! i)
       then (?old ! i)\<lparr>sampler := (sampler (?old ! i))\<lparr>seed := sd + ?cnt i\<rparr>\<rparr>
       else ?old ! i)" if "i < length ?old" for i
    using seed_lessons_nth [OF that, of sd 0] by (simp add: flat)
  have shape: "map fst (set_sampler_seeds sd d) = map fst d
     \<and> map (\<lambda>kv. length (lessons (snd kv))) (set_sampler_seeds sd d)
         = map (\<lambda>kv. length (lessons (snd kv))) d"
    using seed_settings_shape [of sd 0 d] by (simp add: set_sampler_seeds_def)
  have each: "\<forall>i < length ?old.
        name (?new ! i) = name (?old ! i)
        \<and> completion_criteria (?new ! i) = completion_criteria (?old ! i)
        \<and> (seed (sampler (?old ! i)) = - 1 \<longrightarrow> seed (sampler (?new ! i)) = sd + ?cnt i)
        \<and> (seed (sampler (?old ! i)) \<noteq> - 1 \<longrightarrow> sampler (?new ! i) = sampler (?old ! i))"
    by (simp add: nth unassigned_def)
  have distinct: "seed (sampler (?new ! i)) \<noteq> seed (sampler (?new ! j))"
    if "i < j" "j < length ?old" "seed (sampler (?old ! i)) = - 1"
      "seed (sampler (?old ! j)) = - 1" for i j
  proof -
    from that have i: "i < length ?old" by simp
    have "length (filter unassigned (take i ?old)) < length (filter unassigned (take j ?old))"
      using that by (intro filter_take_mono) (simp_all add: unassigned_def)
    then show ?thesis
      using that nth [OF i] nth [OF that(2)] by (simp add: unassigned_def)
  qed
  show ?thesis
    using shape each distinct unfolding un by blast
qed

theorem set_sampler_seeds_assignment_witness:
  "2 < length (all_lessons seed_example)
   \<and> seed (sampler (all_lessons seed_example ! 0)) = - 1
   \<and> seed (sampler (all_lessons seed_example ! 1)) \<noteq> - 1
   \<and> seed (sampler (all_lessons seed_example ! 2)) = - 1
   \<and> seed (sampler (all_lessons (set_sampler_seeds 10 seed_example) ! 0)) = 10
   \<and> seed (sampler (all_lessons (set_sampler_seeds 10 seed_example) ! 1)) = 5
   \<and> seed (sampler (all_lessons (set_sampler_seeds 10 seed_example) ! 2)) = 11"
proof -
  note t = set_sampler_seeds_assignment [of 10 seed_example]
  have old: "all_lessons seed_example =
      [\<lparr>name = ''l0'', sampler = \<lparr>seed = - 1\<rparr>, completion_criteria = None\<rparr>,
       \<lparr>name = ''l1'', sampler = \<lparr>seed = 5\<rparr>, completion_criteria = None\<rparr>,
       \<lparr>name = ''l2'', sampler = \<lparr>seed = - 1\<rparr>, completion_criteria = None\<rparr>]"
    by (simp add: seed_example_def all_lessons_def)
  have h: "2 < length (all_lessons seed_example)"
    "seed (sampler (all_lessons seed_example ! 0)) = - 1"
    "seed (sampler (all_lessons seed_example ! 1)) \<noteq> - 1"
    "seed (sampler (all_lessons seed_example ! 2)) = - 1"
    by (simp_all add: old)
  note each = t [THEN conjunct2, THEN conjunct2, THEN conjunct1, rule_format]
  have i0: "0 < length (all_lessons seed_example)" and i1: "1 < length (all_lessons seed_example)"
    by (simp_all add: old)
  from each [OF i0] h(2)
  have "seed (sampler (all_lessons (set_sampler_seeds 10 seed_example) ! 0))
      = 10 + int (length (filter (\<lambda>l. seed (sampler l) = - 1) (take 0 (all_lessons seed_example))))"
    by simp
  then have s0: "seed (sampler (all_lessons (set_sampler_seeds 10 seed_example) ! 0)) = 10"
    by simp
  from each [OF i1] h(3)
  have "sampler (all_lessons (set_sampler_seeds 10 seed_example) ! 1)
      = sampler (all_lessons seed_example ! 1)"
    by simp
  then have s1: "seed (sampler (all_lessons (set_sampler_seeds 10 seed_example) ! 1)) = 5"
    by (simp add: old)
  from each [OF h(1)] h(4)
  have "seed (sampler (all_lessons (set_sampler_seeds 10 seed_example) ! 2))
      = 10 + int (length (filter (\<lambda>l. seed (sampler l) = - 1) (take 2 (all_lessons seed_example))))"
    by simp
  then have s2: "seed (sampler (all_lessons (set_sampler_seeds 10 seed_example) ! 2)) = 11"
    by (simp add: old)
  from h s0 s1 s2 show ?thesis by simp
qed


section \<open>The minimum reward buffer size\<close>

lemma lessons_buffer_size_fold:
  "lessons_buffer_size b ls r = fold max (lesson_lengths b ls) r"
  by (induction ls arbitrary: r)
     (auto simp: lesson_lengths_def max.commute split: option.splits)

lemma settings_buffer_size_flat:
  "settings_buffer_size b d r = lessons_buffer_size b (all_lessons d) r"
  by (induction d arbitrary: r)
     (simp_all add: all_lessons_def lessons_buffer_size_fold lesson_lengths_def)

text \<open>
  C7, as the code has it. The result starts at 1 and only grows: it is the maximum of 1
  and the \<open>min_lesson_length\<close> values of the lessons whose criteria target the behavior,
  hence 1 when no lesson targets it.
\<close>

theorem get_minimum_reward_buffer_size_max:
  "get_minimum_reward_buffer_size m b = Max (set (1 # matching_lengths (dict_settings m) b))"
proof -
  have "get_minimum_reward_buffer_size m b
          = fold max (matching_lengths (dict_settings m) b) 1"
    by (simp add: get_minimum_reward_buffer_size_def settings_buffer_size_flat
        lessons_buffer_size_fold matching_lengths_def)
  then show ?thesis
    by (simp only: Max.set_eq_fold)
qed

text \<open>
  C7 as stated fails where every matching \<open>min_lesson_length\<close> is below 1: the only
  matching value is 0, and the result is 1.
\<close>

theorem get_minimum_reward_buffer_size_counterexample:
  "matching_lengths zero_length_settings ''b'' \<noteq> []
   \<and> get_minimum_reward_buffer_size
        \<lparr>dict_settings = zero_length_settings, smoothing_values = Map.empty\<rparr> ''b''
       \<noteq> Max (set (matching_lengths zero_length_settings ''b''))"
  by (simp add: matching_lengths_def lesson_lengths_def zero_length_settings_def
      all_lessons_def get_minimum_reward_buffer_size_def)


section \<open>Construction\<close>

lemma init_lesson_nums_other:
  "p \<notin> set ps \<Longrightarrow> saved_state (init_lesson_nums restore ps gs) p = saved_state gs p"
  by (induction ps arbitrary: gs) (auto simp: set_parameter_state_def)

lemma init_lesson_nums_calls:
  "distinct ps \<Longrightarrow>
   set_calls (init_lesson_nums restore ps gs) =
     set_calls gs @ map (\<lambda>q. (q, 0))
        (filter (\<lambda>q. get_parameter_state gs q = None \<or> \<not> restore) ps)"
proof (induction ps arbitrary: gs)
  case Nil
  then show ?case by simp
next
  case (Cons q ps)
  let ?gs = "if get_parameter_state gs q = None \<or> \<not> restore
             then set_parameter_state q 0 gs else gs"
  have same: "\<forall>x \<in> set ps. get_parameter_state ?gs x = get_parameter_state gs x"
    using Cons.prems by (auto simp: get_parameter_state_def set_parameter_state_def)
  have "filter (\<lambda>x. get_parameter_state ?gs x = None \<or> \<not> restore) ps
          = filter (\<lambda>x. get_parameter_state gs x = None \<or> \<not> restore) ps"
    using same by (intro filter_cong) auto
  moreover have "set_calls (init_lesson_nums restore (q # ps) gs)
      = set_calls ?gs @ map (\<lambda>q. (q, 0))
          (filter (\<lambda>x. get_parameter_state ?gs x = None \<or> \<not> restore) ps)"
    using Cons.IH [of ?gs] Cons.prems by simp
  ultimately show ?case
    by (simp add: set_parameter_state_def)
qed

lemma init_lesson_nums_value:
  "distinct ps \<Longrightarrow> p \<in> set ps \<Longrightarrow>
   saved_state (init_lesson_nums restore ps gs) p =
     (if saved_state gs p = None \<or> \<not> restore then Some 0 else saved_state gs p)"
proof (induction ps arbitrary: gs)
  case Nil
  then show ?case by simp
next
  case (Cons q ps)
  show ?case
  proof (cases "q = p")
    case True
    with Cons.prems have "p \<notin> set ps" by simp
    then show ?thesis using True
      by (simp add: init_lesson_nums_other get_parameter_state_def set_parameter_state_def)
  next
    case False
    with Cons.prems have "distinct ps" "p \<in> set ps" by simp_all
    from Cons.IH [OF this] False show ?thesis
      by (simp add: get_parameter_state_def set_parameter_state_def)
  qed
qed

lemma seed_settings_keys: "map fst (fst (seed_settings sd off d)) = map fst d"
  by (induction d arbitrary: off) (auto simp: case_prod_beta)

lemma filter_key_single:
  "distinct ps \<Longrightarrow> p \<in> set ps \<Longrightarrow> filter (\<lambda>q. q = p) ps = [p]"
proof (induction ps)
  case Nil
  then show ?case by simp
next
  case (Cons q ps)
  show ?case
  proof (cases "q = p")
    case True
    with Cons.prems have "p \<notin> set ps" by simp
    then have "filter (\<lambda>q. q = p) ps = []"
      by (auto simp: filter_empty_conv)
    with True show ?thesis by simp
  next
    case False
    with Cons show ?thesis by simp
  qed
qed

text \<open>
  C6. At construction, for every parameter of the settings: when \<open>restore\<close> is false or the
  status holds no lesson index for it, exactly one write is made for it, of index 0; when
  \<open>restore\<close> is true and an index is there, the index stays and no write is made for it.
  Earlier writes stay in the log, and the manager reports the resulting index as the
  current lesson number.
\<close>

theorem init_lesson_index:
  assumes "distinct (map fst settings)" and "p \<in> set (map fst settings)"
  shows
   "(\<not> restore \<or> get_parameter_state gs p = None \<longrightarrow>
        get_parameter_state (snd (init settings run_seed restore gs)) p = Some 0
        \<and> filter (\<lambda>w. fst w = p)
            (drop (length (set_calls gs)) (set_calls (snd (init settings run_seed restore gs))))
          = [(p, 0)])
    \<and> (restore \<and> get_parameter_state gs p \<noteq> None \<longrightarrow>
        get_parameter_state (snd (init settings run_seed restore gs)) p
          = get_parameter_state gs p
        \<and> filter (\<lambda>w. fst w = p)
            (drop (length (set_calls gs)) (set_calls (snd (init settings run_seed restore gs))))
          = [])
    \<and> take (length (set_calls gs)) (set_calls (snd (init settings run_seed restore gs)))
        = set_calls gs
    \<and> (p, get_parameter_state (snd (init settings run_seed restore gs)) p)
        \<in> set (get_current_lesson_number (fst (init settings run_seed restore gs))
                  (snd (init settings run_seed restore gs)))"
proof -
  let ?ps = "map fst settings"
  let ?gs' = "init_lesson_nums restore ?ps gs"
  let ?c = "\<lambda>q. get_parameter_state gs q = None \<or> \<not> restore"
  have gs': "snd (init settings run_seed restore gs) = ?gs'"
    by (simp add: init_def)
  have calls: "set_calls ?gs' = set_calls gs @ map (\<lambda>q. (q, 0)) (filter ?c ?ps)"
    using assms(1) by (rule init_lesson_nums_calls)
  have val: "get_parameter_state ?gs' p = (if ?c p then Some 0 else get_parameter_state gs p)"
    using init_lesson_nums_value [OF assms, of restore gs]
    by (simp add: get_parameter_state_def)
  have "filter (\<lambda>q. q = p) ?ps = [p]"
    using assms by (rule filter_key_single)
  moreover have "filter (\<lambda>q. q = p \<and> ?c q) ?ps = filter ?c (filter (\<lambda>q. q = p) ?ps)"
    by (simp only: filter_filter)
  ultimately have one: "filter (\<lambda>q. q = p \<and> ?c q) ?ps = (if ?c p then [p] else [])"
    by simp
  have writes: "filter (\<lambda>w. fst w = p) (map (\<lambda>q. (q, 0::int)) (filter ?c ?ps))
                  = (if ?c p then [(p, 0)] else [])"
  proof -
    have "filter (\<lambda>w. fst w = p) (map (\<lambda>q. (q, 0::int)) (filter ?c ?ps))
            = map (\<lambda>q. (q, 0)) (filter (\<lambda>q. q = p \<and> ?c q) ?ps)"
      by (simp add: filter_map comp_def conj_commute)
    then show ?thesis by (simp add: one)
  qed
  have keys: "map fst (dict_settings (fst (init settings run_seed restore gs))) = ?ps"
    by (simp add: init_def set_sampler_seeds_def seed_settings_keys)
  have "p \<in> set (map fst (dict_settings (fst (init settings run_seed restore gs))))"
    using assms(2) keys by simp
  then have cur: "(p, get_parameter_state ?gs' p)
        \<in> set (get_current_lesson_number (fst (init settings run_seed restore gs)) ?gs')"
    by (auto simp: get_current_lesson_number_def)
  have new: "drop (length (set_calls gs)) (set_calls ?gs') = map (\<lambda>q. (q, 0)) (filter ?c ?ps)"
    by (simp add: calls)
  have old: "take (length (set_calls gs)) (set_calls ?gs') = set_calls gs"
    by (simp add: calls)
  have main: "(\<not> restore \<or> get_parameter_state gs p = None \<longrightarrow>
        get_parameter_state ?gs' p = Some 0
        \<and> filter (\<lambda>w. fst w = p) (drop (length (set_calls gs)) (set_calls ?gs')) = [(p, 0)])
    \<and> (restore \<and> get_parameter_state gs p \<noteq> None \<longrightarrow>
        get_parameter_state ?gs' p = get_parameter_state gs p
        \<and> filter (\<lambda>w. fst w = p) (drop (length (set_calls gs)) (set_calls ?gs')) = [])"
    unfolding new writes val by auto
  show ?thesis
    unfolding gs' using main old cur by blast
qed

theorem init_lesson_index_witness:
  "distinct (map fst restore_example) \<and> ''x'' \<in> set (map fst restore_example)
   \<and> ''y'' \<in> set (map fst restore_example)
   \<and> get_parameter_state restore_status ''x'' = Some 2
   \<and> get_parameter_state restore_status ''y'' = None
   \<and> get_parameter_state (snd (init restore_example 7 True restore_status)) ''x'' = Some 2
   \<and> get_parameter_state (snd (init restore_example 7 True restore_status)) ''y'' = Some 0
   \<and> get_parameter_state (snd (init restore_example 7 False restore_status)) ''x'' = Some 0
   \<and> filter (\<lambda>w. fst w = ''x'')
        (drop (length (set_calls restore_status))
           (set_calls (snd (init restore_example 7 True restore_status)))) = []"
proof -
  have d: "distinct (map fst restore_example)"
    and x: "''x'' \<in> set (map fst restore_example)"
    and y: "''y'' \<in> set (map fst restore_example)"
    by (simp_all add: restore_example_def)
  have gx: "get_parameter_state restore_status ''x'' = Some 2"
    and gy: "get_parameter_state restore_status ''y'' = None"
    by (simp_all add: restore_status_def get_parameter_state_def)
  from init_lesson_index [OF d x, of True restore_status 7] gx
  have a: "get_parameter_state (snd (init restore_example 7 True restore_status)) ''x'' = Some 2"
    and b: "filter (\<lambda>w. fst w = ''x'')
        (drop (length (set_calls restore_status))
           (set_calls (snd (init restore_example 7 True restore_status)))) = []"
    by simp_all
  from init_lesson_index [OF d y, of True restore_status 7] gy
  have c: "get_parameter_state (snd (init restore_example 7 True restore_status)) ''y'' = Some 0"
    by simp
  from init_lesson_index [OF d x, of False restore_status 7]
  have e: "get_parameter_state (snd (init restore_example 7 False restore_status)) ''x'' = Some 0"
    by simp
  from d x y gx gy a b c e show ?thesis by simp
qed

section \<open>Lesson advancement\<close>

lemma update_param_state:
  "fst (update_param np_mean ts tms trb kv st flags) = st
   \<or> (\<exists>ns. fst (update_param np_mean ts tms trb kv st flags) = ((fst st)(fst kv \<mapsto> ns), snd st))
   \<or> (\<exists>ns n. fst (update_param np_mean ts tms trb kv st flags)
          = ((fst st)(fst kv \<mapsto> ns), set_parameter_state (fst kv) n (snd st)))"
proof (cases "current_lesson (snd st) (fst kv) (snd kv)")
  case (Inl e)
  then show ?thesis by (simp add: update_param_def)
next
  case (Inr il)
  obtain i l where il: "il = (i, l)" by (cases il)
  note cur = Inr [unfolded il]
  show ?thesis
  proof (cases "completion_criteria l")
    case None
    with cur show ?thesis by (simp add: update_param_def)
  next
    case (Some cc)
    show ?thesis
    proof (cases "i < int (length (lessons (snd kv)))")
      case False
      with cur Some show ?thesis by (simp add: update_param_def)
    next
      case True
      show ?thesis
      proof (cases "increment_args ts tms trb (fst st) (fst kv) (behavior cc)")
        case (Inl e)
        with cur Some True show ?thesis by (simp add: update_param_def)
      next
        case (Inr args)
        obtain progress buf sm where args: "args = (progress, buf, sm)" by (cases args)
        obtain must new where ni: "need_increment np_mean cc progress buf sm = (must, new)"
          by (cases "need_increment np_mean cc progress buf sm")
        show ?thesis
        proof (cases must)
          case False
          with cur Some True Inr args ni show ?thesis
            by (auto simp: update_param_def)
        next
          case must: True
          show ?thesis
          proof (cases "py_index (lessons (snd kv)) (i + 1)")
            case (Inl e)
            with cur Some True Inr args ni must show ?thesis
              by (auto simp: update_param_def Let_def)
          next
            case next_lesson: (Inr nl)
            with cur Some True Inr args ni must show ?thesis
              by (auto simp: update_param_def Let_def)
          qed
        qed
      qed
    qed
  qed
qed

lemma update_param_frame:
  assumes "fst kv \<noteq> p"
  shows "get_parameter_state (snd (fst (update_param np_mean ts tms trb kv st flags))) p
           = get_parameter_state (snd st) p
         \<and> fst (fst (update_param np_mean ts tms trb kv st flags)) p = fst st p"
proof -
  consider (same) "fst (update_param np_mean ts tms trb kv st flags) = st"
    | (smoothed) ns where
        "fst (update_param np_mean ts tms trb kv st flags) = ((fst st)(fst kv \<mapsto> ns), snd st)"
    | (advanced) ns n where
        "fst (update_param np_mean ts tms trb kv st flags)
           = ((fst st)(fst kv \<mapsto> ns), set_parameter_state (fst kv) n (snd st))"
    using update_param_state [of np_mean ts tms trb kv st flags] by blast
  then show ?thesis
  proof cases
    case same
    show ?thesis by (simp only: same)
  next
    case smoothed
    show ?thesis using assms by (simp add: smoothed)
  next
    case advanced
    show ?thesis
      using assms by (simp add: advanced get_parameter_state_def set_parameter_state_def)
  qed
qed

lemma update_loop_frame:
  assumes "p \<notin> fst ` set items"
  shows "get_parameter_state (snd (fst (update_loop np_mean ts tms trb items st flags))) p
           = get_parameter_state (snd st) p
         \<and> fst (fst (update_loop np_mean ts tms trb items st flags)) p = fst st p"
  using assms
proof (induction items arbitrary: st flags)
  case Nil
  then show ?case by simp
next
  case (Cons kv items)
  then have kv: "fst kv \<noteq> p" and rest: "p \<notin> fst ` set items" by auto
  obtain st' r where up: "update_param np_mean ts tms trb kv st flags = (st', r)"
    by (cases "update_param np_mean ts tms trb kv st flags")
  from update_param_frame [OF kv, of np_mean ts tms trb st flags] up
  have fr: "get_parameter_state (snd st') p = get_parameter_state (snd st) p"
    "fst st' p = fst st p" by simp_all
  show ?case
  proof (cases r)
    case (Inl e)
    with up fr show ?thesis by simp
  next
    case (Inr flags')
    with up fr Cons.IH [OF rest, of st' flags'] show ?thesis by simp
  qed
qed

lemma current_lesson_cong:
  "get_parameter_state gs' p = get_parameter_state gs p \<Longrightarrow>
   current_lesson gs' p s = current_lesson gs p s"
  by (simp add: current_lesson_def)

lemma update_param_skip:
  assumes "current_lesson (snd st) p s = Inr (i, l)" and "completion_criteria l = None"
  shows "update_param np_mean ts tms trb (p, s) st flags = (st, Inr flags)"
  using assms by (simp add: update_param_def)

lemma filter_other_keys:
  "p \<notin> fst ` set items \<Longrightarrow> filter (\<lambda>kv. fst kv \<noteq> p) items = items"
  by (induction items) auto

lemma update_loop_skip:
  assumes "distinct (map fst items)" and "(p, s) \<in> set items"
    and "current_lesson (snd st) p s = Inr (i, l)" and "completion_criteria l = None"
  shows "update_loop np_mean ts tms trb items st flags
           = update_loop np_mean ts tms trb (filter (\<lambda>kv. fst kv \<noteq> p) items) st flags"
  using assms
proof (induction items arbitrary: st flags)
  case Nil
  then show ?case by simp
next
  case (Cons kv items)
  show ?case
  proof (cases "kv = (p, s)")
    case True
    with Cons.prems(1) have "p \<notin> fst ` set items" by simp
    then have "filter (\<lambda>kv. fst kv \<noteq> p) items = items"
      by (rule filter_other_keys)
    with True have f: "filter (\<lambda>kv. fst kv \<noteq> p) (kv # items) = items"
      by simp
    have skip: "update_param np_mean ts tms trb kv st flags = (st, Inr flags)"
      unfolding True using Cons.prems(3,4) by (rule update_param_skip)
    show ?thesis
      unfolding f by (simp add: skip)
  next
    case False
    with Cons.prems(2) have mem: "(p, s) \<in> set items" by simp
    then have "p \<in> fst ` set items" by force
    with Cons.prems(1) have kv: "fst kv \<noteq> p" by auto
    then have f: "filter (\<lambda>kv. fst kv \<noteq> p) (kv # items)
                    = kv # filter (\<lambda>kv. fst kv \<noteq> p) items"
      by simp
    from Cons.prems(1) have dist: "distinct (map fst items)" by simp
    obtain st' r where up: "update_param np_mean ts tms trb kv st flags = (st', r)"
      by (cases "update_param np_mean ts tms trb kv st flags")
    have "get_parameter_state (snd (fst (update_param np_mean ts tms trb kv st flags))) p
            = get_parameter_state (snd st) p"
      using update_param_frame [OF kv] by blast
    then have "get_parameter_state (snd st') p = get_parameter_state (snd st) p"
      by (simp add: up)
    then have "current_lesson (snd st') p s = current_lesson (snd st) p s"
      by (rule current_lesson_cong)
    with Cons.prems(3) have cur: "current_lesson (snd st') p s = Inr (i, l)"
      by simp
    show ?thesis
    proof (cases r)
      case (Inl e)
      show ?thesis
        unfolding f by (simp add: up Inl)
    next
      case (Inr flags')
      have "update_loop np_mean ts tms trb items st' flags'
              = update_loop np_mean ts tms trb (filter (\<lambda>kv. fst kv \<noteq> p) items) st' flags'"
        using dist mem cur Cons.prems(4) by (rule Cons.IH)
      then show ?thesis
        unfolding f by (simp add: up Inr)
    qed
  qed
qed

text \<open>
  C10. A parameter whose current lesson has no completion criteria is skipped by
  \<open>update_lessons\<close>: after the call its persisted lesson index and its smoothing value are
  what they were before, and the result of the call (the two flags, or the exception), the
  training status and the smoothing values are those of the same call on the settings
  without that parameter, so it contributes to neither flag.
\<close>

theorem update_lessons_skips_parameter_without_criteria:
  assumes "distinct (map fst (dict_settings m))"
    and "(p, s) \<in> set (dict_settings m)"
    and "current_lesson gs p s = Inr (i, l)"
    and "completion_criteria l = None"
  shows "get_parameter_state (snd (fst (update_lessons np_mean m gs ts tms trb))) p
           = get_parameter_state gs p
         \<and> smoothing_values (fst (fst (update_lessons np_mean m gs ts tms trb))) p
             = smoothing_values m p
         \<and> snd (update_lessons np_mean m gs ts tms trb)
             = snd (update_lessons np_mean
                      (m\<lparr>dict_settings := filter (\<lambda>kv. fst kv \<noteq> p) (dict_settings m)\<rparr>)
                      gs ts tms trb)
         \<and> snd (fst (update_lessons np_mean m gs ts tms trb))
             = snd (fst (update_lessons np_mean
                      (m\<lparr>dict_settings := filter (\<lambda>kv. fst kv \<noteq> p) (dict_settings m)\<rparr>)
                      gs ts tms trb))
         \<and> smoothing_values (fst (fst (update_lessons np_mean m gs ts tms trb)))
             = smoothing_values (fst (fst (update_lessons np_mean
                      (m\<lparr>dict_settings := filter (\<lambda>kv. fst kv \<noteq> p) (dict_settings m)\<rparr>)
                      gs ts tms trb)))"
proof -
  let ?others = "filter (\<lambda>kv. fst kv \<noteq> p) (dict_settings m)"
  let ?st = "(smoothing_values m, gs)"
  have cur: "current_lesson (snd ?st) p s = Inr (i, l)"
    using assms(3) by simp
  have eq: "update_loop np_mean ts tms trb (dict_settings m) ?st (False, False)
              = update_loop np_mean ts tms trb ?others ?st (False, False)"
    using assms(1,2) cur assms(4) by (rule update_loop_skip)
  have "p \<notin> fst ` set ?others" by auto
  from update_loop_frame [OF this, of np_mean ts tms trb ?st "(False, False)"]
  have fr: "get_parameter_state
              (snd (fst (update_loop np_mean ts tms trb ?others ?st (False, False)))) p
              = get_parameter_state gs p"
    "fst (fst (update_loop np_mean ts tms trb ?others ?st (False, False))) p
       = smoothing_values m p"
    by simp_all
  obtain sv' gs' r where res:
    "update_loop np_mean ts tms trb ?others ?st (False, False) = ((sv', gs'), r)"
    by (metis surj_pair)
  have full: "update_lessons np_mean m gs ts tms trb = ((m\<lparr>smoothing_values := sv'\<rparr>, gs'), r)"
    by (simp add: update_lessons_def eq res)
  have part: "update_lessons np_mean (m\<lparr>dict_settings := ?others\<rparr>) gs ts tms trb
                = ((m\<lparr>dict_settings := ?others, smoothing_values := sv'\<rparr>, gs'), r)"
    by (simp add: update_lessons_def res)
  from fr have "get_parameter_state gs' p = get_parameter_state gs p"
    and "sv' p = smoothing_values m p"
    by (simp_all add: res)
  then show ?thesis
    by (simp add: full part)
qed


theorem update_lessons_skips_parameter_without_criteria_witness:
  "distinct (map fst (dict_settings mixed_manager))
   \<and> (''gravity'', gravity_settings) \<in> set (dict_settings mixed_manager)
   \<and> current_lesson mixed_status ''gravity'' gravity_settings
       = Inr (0, \<lparr>name = ''fixed'', sampler = \<lparr>seed = 3\<rparr>, completion_criteria = None\<rparr>)
   \<and> completion_criteria
         \<lparr>name = ''fixed'', sampler = \<lparr>seed = 3\<rparr>, completion_criteria = None\<rparr> = None
   \<and> get_parameter_state
         (snd (fst (update_lessons seq_mean mixed_manager mixed_status
            some_steps some_steps some_rewards))) ''gravity''
       = get_parameter_state mixed_status ''gravity''
   \<and> smoothing_values
         (fst (fst (update_lessons seq_mean mixed_manager mixed_status
            some_steps some_steps some_rewards))) ''gravity''
       = smoothing_values mixed_manager ''gravity''
   \<and> snd (update_lessons seq_mean mixed_manager mixed_status
            some_steps some_steps some_rewards)
       = Inr (True, True)
   \<and> snd (update_lessons seq_mean
            (mixed_manager\<lparr>dict_settings :=
               filter (\<lambda>kv. fst kv \<noteq> ''gravity'') (dict_settings mixed_manager)\<rparr>)
            mixed_status some_steps some_steps some_rewards)
       = Inr (True, True)"
proof -
  let ?l = "\<lparr>name = ''fixed'', sampler = \<lparr>seed = 3\<rparr>, completion_criteria = None\<rparr>"
  have h1: "distinct (map fst (dict_settings mixed_manager))"
    by (simp add: mixed_manager_def)
  have h2: "(''gravity'', gravity_settings) \<in> set (dict_settings mixed_manager)"
    by (simp add: mixed_manager_def)
  have h3: "current_lesson mixed_status ''gravity'' gravity_settings = Inr (0, ?l)"
    by (simp add: current_lesson_def mixed_status_def get_parameter_state_def
        gravity_settings_def py_index_def bind_err_def)
  have h4: "completion_criteria ?l = None"
    by simp
  note skip = update_lessons_skips_parameter_without_criteria
    [OF h1 h2 h3 h4, of seq_mean some_steps some_steps some_rewards]
  have others: "snd (update_lessons seq_mean
            (mixed_manager\<lparr>dict_settings :=
               filter (\<lambda>kv. fst kv \<noteq> ''gravity'') (dict_settings mixed_manager)\<rparr>)
            mixed_status some_steps some_steps some_rewards)
       = Inr (True, True)"
    by (simp add: update_lessons_def update_param_def mixed_manager_def mixed_status_def
        scale_settings_def small_lesson_def scale_criteria_def some_steps_def some_rewards_def
        current_lesson_def get_parameter_state_def set_parameter_state_def
        py_index_def py_getitem_def bind_err_def increment_args_def py_float_def
        py_truediv_def round64_one need_increment_def)
  from skip have whole: "snd (update_lessons seq_mean mixed_manager mixed_status
            some_steps some_steps some_rewards) = Inr (True, True)"
    by (simp only: others)
  note index = skip [THEN conjunct1]
  note smoothing = skip [THEN conjunct2, THEN conjunct1]
  show ?thesis
    by (rule conjI h1 h2 h3 h4 index smoothing whole others)+
qed











text \<open>
  C1. The property does not hold of \<open>update_lessons\<close>. The guard of line 90 compares the
  number of lessons with the current index, which the lookup of line 87 has just found in
  range, so it lets every lesson through, the last one too. When the criteria of a last
  lesson are met, the index after the last lesson is stored, and the log message of line
  106, which reads the name of the lesson at that index, raises \<^verbatim>\<open>IndexError\<close>. Here the
  parameter has one lesson: the call raises, the stored index is 1, and this index selects
  no lesson.
\<close>

theorem update_lessons_stores_index_past_last_lesson:
  "update_lessons seq_mean single_lesson_manager single_lesson_status
       [''b'' \<mapsto> 1] [''b'' \<mapsto> 1] [''b'' \<mapsto> [Flt 1]]
     = ((single_lesson_manager,
         \<lparr>saved_state = [''scale'' \<mapsto> 1], set_calls = [(''scale'', 1)]\<rparr>),
        Inl IndexError)
   \<and> int (length (lessons single_lesson_settings)) = 1
   \<and> current_lesson \<lparr>saved_state = [''scale'' \<mapsto> 1], set_calls = [(''scale'', 1)]\<rparr>
         ''scale'' single_lesson_settings
     = Inl IndexError"
  by (simp add: update_lessons_def update_param_def single_lesson_manager_def
      single_lesson_status_def single_lesson_settings_def small_lesson_def scale_criteria_def
      current_lesson_def get_parameter_state_def set_parameter_state_def
      py_index_def py_getitem_def bind_err_def increment_args_def py_float_def
      py_truediv_def round64_one need_increment_def)

end
